theory Spec2Isabelle
  imports Complex_Main
begin

section \<open>Penalty-method auction benchmark: model of auction_optimization.py\<close>

text \<open>
  The program works on numpy arrays of 64-bit floats. Here a one-dimensional array is
  a \<open>real list\<close>, and the arithmetic of \<open>potential\<close> and of the revenue sums is the exact
  arithmetic of the reals: rounding there, infinities and NaN are outside this model.
  The one operation whose rounding is modelled is the division that fills the initial
  guess, because the values it stores decide whether that point satisfies the
  constraints. A Python exception is a value of type \<open>error\<close>; a function that may raise
  returns \<open>error + 'a\<close>.
\<close>

datatype error = ValueError string | Exception string

subsection \<open>The numpy operations the program uses\<close>

text \<open>
  A binary operation on two one-dimensional arrays follows numpy's broadcasting rule:
  equal lengths combine elementwise, an array of length one is stretched to the other
  length, and any other pair of lengths raises ValueError.
\<close>

definition broadcast2 ::
  "(real \<Rightarrow> real \<Rightarrow> real) \<Rightarrow> real list \<Rightarrow> real list \<Rightarrow> error + real list" where
  "broadcast2 f a b =
     (if length a = length b then Inr (map2 f a b)
      else if length a = 1 then Inr (map (f (hd a)) b)
      else if length b = 1 then Inr (map (\<lambda>t. f t (hd b)) a)
      else Inl (ValueError ''operands could not be broadcast together''))"

text \<open>\<open>np.sum(np.maximum(0, a)**2)\<close> for a one-dimensional array \<open>a\<close>.\<close>

definition hinge_sq_sum :: "real list \<Rightarrow> real" where
  "hinge_sq_sum a = sum_list (map (\<lambda>t. (max 0 t)\<^sup>2) a)"

text \<open>
  \<open>np.argmax\<close> on a one-dimensional array: the index of the first occurrence of the
  maximum; ValueError on an empty array. The scan keeps the best index seen so far and
  replaces it only by a strictly larger entry.
\<close>

fun argmax_scan :: "real list \<Rightarrow> nat \<Rightarrow> nat \<Rightarrow> real \<Rightarrow> nat" where
  "argmax_scan [] i best bv = best"
| "argmax_scan (y # ys) i best bv =
     (if bv < y then argmax_scan ys (Suc i) i y else argmax_scan ys (Suc i) best bv)"

definition argmax :: "real list \<Rightarrow> error + nat" where
  "argmax v =
     (case v of
        [] \<Rightarrow> Inl (ValueError ''attempt to get argmax of an empty sequence'')
      | y # ys \<Rightarrow> Inr (argmax_scan ys 1 0 y))"

subsection \<open>potential (lines 6-39)\<close>

definition potential :: "real list \<Rightarrow> real list \<Rightarrow> real \<Rightarrow> error + real" where
  "potential z v mu =
     (let n = length v;
          x = take n z;
          p = drop n z;
          revenue_term = - sum_list p;
          penalty_alloc_bounds =
            hinge_sq_sum (map uminus x) + hinge_sq_sum (map (\<lambda>t. t - 1) x);
          penalty_total_alloc = (max 0 (sum_list x - 1))\<^sup>2;
          penalty_payment_nonneg = hinge_sq_sum (map uminus p)
      in case broadcast2 (*) v x of
           Inl e \<Rightarrow> Inl e
         | Inr vx \<Rightarrow>
             (case broadcast2 (-) p vx of
                Inl e \<Rightarrow> Inl e
              | Inr d \<Rightarrow>
                  (let penalty_ir = hinge_sq_sum d;
                       penalty = penalty_alloc_bounds + penalty_total_alloc
                                 + penalty_payment_nonneg + penalty_ir
                   in Inr (revenue_term + (mu / 2) * penalty))))"

subsection \<open>analytical_optimal_solution (lines 41-56)\<close>

definition analytical_optimal_solution :: "real list \<Rightarrow> error + real list" where
  "analytical_optimal_solution v =
     (let n = length v;
          x_opt = replicate n 0;
          p_opt = replicate n 0
      in case argmax v of
           Inl e \<Rightarrow> Inl e
         | Inr i_star \<Rightarrow>
             Inr (x_opt[i_star := 1] @ p_opt[i_star := v ! i_star]))"

subsection \<open>Parsing the valuations (lines 76-80)\<close>

text \<open>
  \<open>str.split(',')\<close>: the pieces between the commas, in order; a string without a
  comma, the empty string included, gives a single piece.
\<close>

fun split_comma :: "string \<Rightarrow> string list" where
  "split_comma [] = [[]]"
| "split_comma (c # cs) =
     (if c = CHR '','' then [] # split_comma cs
      else (case split_comma cs of
              [] \<Rightarrow> [[c]]
            | t # ts \<Rightarrow> (c # t) # ts))"

text \<open>\<open>str.strip()\<close> removes leading and trailing whitespace (the ASCII whitespace here).\<close>

definition is_space :: "char \<Rightarrow> bool" where
  "is_space c = ((of_char c :: nat) \<in> {9, 10, 11, 12, 13, 28, 29, 30, 31, 32})"

definition strip :: "string \<Rightarrow> string" where
  "strip s = rev (dropWhile is_space (rev (dropWhile is_space s)))"

text \<open>
  Python's builtin \<open>float\<close> on a string is a parameter \<open>pyfloat\<close> of the model:
  \<open>None\<close> where the builtin raises ValueError. The list comprehension converts the
  tokens from left to right and stops at the first one that raises.
\<close>

fun float_each :: "(string \<Rightarrow> real option) \<Rightarrow> string list \<Rightarrow> real list option" where
  "float_each pyfloat [] = Some []"
| "float_each pyfloat (val # vals) =
     (case pyfloat (strip val) of
        None \<Rightarrow> None
      | Some r \<Rightarrow>
          (case float_each pyfloat vals of
             None \<Rightarrow> None
           | Some rs \<Rightarrow> Some (r # rs)))"

definition parse_valuations :: "(string \<Rightarrow> real option) \<Rightarrow> string \<Rightarrow> error + real list" where
  "parse_valuations pyfloat s =
     (case float_each pyfloat (split_comma s) of
        None \<Rightarrow>
          Inl (ValueError ''Error parsing valuations. Ensure they are comma-separated numbers.'')
      | Some v_list \<Rightarrow> Inr v_list)"

text \<open>
  A small instance of \<open>pyfloat\<close> for running the model on examples. It reads the
  decimal integer literals with an optional minus sign, which \<open>float\<close> reads as the
  integer they denote, and rejects the empty string, a lone sign and any token with a
  character that is not a digit. \<open>float\<close> accepts more (fractions, exponents); the
  examples below use only tokens on which the two agree.
\<close>

definition digit_of :: "char \<Rightarrow> nat option" where
  "digit_of c =
     (let k = (of_char c :: nat) in if 48 \<le> k \<and> k \<le> 57 then Some (k - 48) else None)"

fun digits_value :: "nat \<Rightarrow> string \<Rightarrow> nat option" where
  "digits_value acc [] = Some acc"
| "digits_value acc (c # cs) =
     (case digit_of c of
        None \<Rightarrow> None
      | Some d \<Rightarrow> digits_value (10 * acc + d) cs)"

definition decimal_integer :: "string \<Rightarrow> real option" where
  "decimal_integer s =
     (case s of
        [] \<Rightarrow> None
      | c # cs \<Rightarrow>
          if c = CHR ''-'' then
            (if cs = [] then None else map_option (\<lambda>k. - real k) (digits_value 0 cs))
          else map_option real (digits_value 0 s))"

subsection \<open>main (lines 58-130)\<close>

text \<open>
  The command-line arguments after argparse. The two solvers come from the module
  \<open>optimization\<close>, which is not part of this file: they are parameters of the model,
  and each may return a vector or raise. The objective handed to them is the closure
  \<open>potential_func\<close>.
\<close>

record args =
  valuations :: string
  mu :: real
  alpha :: real
  tol :: real
  max_iter :: int
  max_iter_newton :: int

type_synonym objective = "real list \<Rightarrow> error + real"

type_synonym gradient_solver =
  "objective \<Rightarrow> real list \<Rightarrow> real \<Rightarrow> real \<Rightarrow> int \<Rightarrow> error + real list"

type_synonym newton_solver =
  "objective \<Rightarrow> real list \<Rightarrow> real \<Rightarrow> int \<Rightarrow> error + real list"

text \<open>
  What a run does that can be observed: each \<open>print\<close> with its arguments, and each
  call of a solver with the starting point it is given. \<open>Formatted f r\<close> is the
  format string \<open>f\<close>, with one \<open>{:.6f}\<close> field, applied to \<open>r\<close>.
\<close>

datatype pyval = Str string | Arr "real list" | Num real | Formatted string real | Exc error

datatype event =
    Print "pyval list"
  | Call_steepest_descent "real list"
  | Call_newton "real list"

text \<open>
  Division of two 64-bit floats gives the quotient rounded to the nearest float, ties
  to the even significand. \<open>normalise\<close> scales a positive number into
  \<open>[2^52, 2^53)\<close>, where the floats are the integers, and keeps the unit \<open>u\<close> that
  scales it back; \<open>round_f64\<close> rounds the scaled number to an integer. Overflow and
  subnormal numbers are not modelled: the quotients \<open>1 / n\<close> of the program are far
  from both.
\<close>

definition round_half_even :: "real \<Rightarrow> int" where
  "round_half_even t =
     (let f = \<lfloor>t\<rfloor>; r = t - of_int f
      in if r < 1/2 then f else if 1/2 < r then f + 1 else if even f then f else f + 1)"

function normalise :: "real \<Rightarrow> real \<Rightarrow> real \<times> real" where
  "normalise m u =
     (if m \<le> 0 then (m, u)
      else if m < 2^52 then normalise (2 * m) (u / 2)
      else if 2^53 \<le> m then normalise (m / 2) (2 * u)
      else (m, u))"
  by pat_completeness auto
termination
proof (relation "measure (\<lambda>(m, u). nat \<bar>\<lfloor>log 2 m\<rfloor> - 52\<bar>)")
  show "wf (measure (\<lambda>(m, u). nat \<bar>\<lfloor>log 2 m\<rfloor> - 52\<bar>))" by simp
next
  fix m u :: real
  assume a: "\<not> m \<le> 0" "m < 2^52"
  have l: "log 2 m < 52" using a by (simp add: log_less_iff)
  then have f: "\<lfloor>log 2 m\<rfloor> \<le> 51" by linarith
  have "log 2 (2 * m) = 1 + log 2 m" using a by (simp add: log_mult)
  then have "\<lfloor>log 2 (2 * m)\<rfloor> = 1 + \<lfloor>log 2 m\<rfloor>" by simp
  with f show "((2 * m, u / 2), (m, u)) \<in> measure (\<lambda>(m, u). nat \<bar>\<lfloor>log 2 m\<rfloor> - 52\<bar>)"
    by simp
next
  fix m u :: real
  assume a: "\<not> m \<le> 0" "\<not> m < 2^52" "2^53 \<le> m"
  have l: "53 \<le> log 2 m" using a by (simp add: le_log_iff)
  then have f: "53 \<le> \<lfloor>log 2 m\<rfloor>" by linarith
  have "log 2 (m / 2) = log 2 m - 1" using a by (simp add: log_divide)
  then have "\<lfloor>log 2 (m / 2)\<rfloor> = \<lfloor>log 2 m\<rfloor> - 1" by simp
  with f show "((m / 2, 2 * u), (m, u)) \<in> measure (\<lambda>(m, u). nat \<bar>\<lfloor>log 2 m\<rfloor> - 52\<bar>)"
    by simp
qed

declare normalise.simps [simp del]

definition round_f64 :: "real \<Rightarrow> real" where
  "round_f64 t =
     (if t = 0 then 0
      else (let (m, u) = normalise \<bar>t\<bar> 1
            in sgn t * of_int (round_half_even m) * u))"

text \<open>
  Lines 87-89: the initial guess. \<open>np.ones(n) / n\<close> divides each entry 1.0 by \<open>n\<close>;
  an array length is an integer that a float holds exactly.
\<close>

definition initial_guess :: "nat \<Rightarrow> real list" where
  "initial_guess n =
     (let x0 = map (\<lambda>t. round_f64 (t / real n)) (replicate n 1);
          p0 = replicate n 0
      in x0 @ p0)"

text \<open>
  Lines 106-115: the Newton branch. The handler catches whatever the solver raises, and
  also whatever the evaluation of the potential at the solver's result raises; the
  result is \<open>z_newton\<close> together with \<open>revenue_newton\<close>, or \<open>None\<close>.
\<close>

definition newton_branch ::
  "newton_solver \<Rightarrow> objective \<Rightarrow> real list \<Rightarrow> nat \<Rightarrow> args
     \<Rightarrow> (real list \<times> real) option \<times> event list" where
  "newton_branch newton potential_func z0 n a =
     (case newton potential_func z0 (tol a) (max_iter_newton a) of
        Inl e \<Rightarrow>
          (None, [Call_newton z0, Print [Str ''Newton's method failed with error:'', Exc e]])
      | Inr z_newton \<Rightarrow>
          (case potential_func z_newton of
             Inl e \<Rightarrow>
               (None,
                [Call_newton z0,
                 Print [Str ''Newton's Method Solution (x and p):'', Arr z_newton],
                 Print [Str ''Newton's method failed with error:'', Exc e]])
           | Inr f_newton \<Rightarrow>
               (let revenue_newton = sum_list (drop n z_newton)
                in (Some (z_newton, revenue_newton),
                    [Call_newton z0,
                     Print [Str ''Newton's Method Solution (x and p):'', Arr z_newton],
                     Print [Str ''Potential function value (Newton):'', Num f_newton],
                     Print [Str ''Achieved Revenue (Newton):'', Num revenue_newton]]))))"

text \<open>Lines 117-130: the analytical optimum and the comparison.\<close>

definition report ::
  "real list \<Rightarrow> nat \<Rightarrow> real \<Rightarrow> (real list \<times> real) option \<Rightarrow> (error + unit) \<times> event list" where
  "report v n revenue_sd newton_result =
     (case analytical_optimal_solution v of
        Inl e \<Rightarrow> (Inl e, [])
      | Inr z_opt \<Rightarrow>
          (let optimal_revenue = sum_list (drop n z_opt)
           in (Inr (),
               [Print [Str (CHR 0x0A # ''--- Analytical Optimal Solution ---'')],
                Print [Str ''Analytical Optimal (x and p):'', Arr z_opt],
                Print [Str ''Optimal Revenue:'', Num optimal_revenue],
                Print [Str (CHR 0x0A # ''--- Comparison ---'')],
                Print [Formatted ''Steepest Descent Revenue Error: {:.6f}''
                         \<bar>optimal_revenue - revenue_sd\<bar>],
                (case newton_result of
                   Some (z_newton, revenue_newton) \<Rightarrow>
                     Print [Formatted ''Newton's Method Revenue Error: {:.6f}''
                              \<bar>optimal_revenue - revenue_newton\<bar>]
                 | None \<Rightarrow> Print [Str ''Newton's Method did not produce a solution.''])])))"

text \<open>
  The whole run: the outcome (an uncaught exception or normal completion) and the
  events in the order they happen.
\<close>

definition main ::
  "(string \<Rightarrow> real option) \<Rightarrow> gradient_solver \<Rightarrow> newton_solver \<Rightarrow> args
     \<Rightarrow> (error + unit) \<times> event list" where
  "main pyfloat steepest_descent newton a =
     (case parse_valuations pyfloat (valuations a) of
        Inl e \<Rightarrow> (Inl e, [])
      | Inr v \<Rightarrow>
          (let n = length v;
               potential_func = (\<lambda>z. potential z v (mu a));
               z0 = initial_guess n;
               out1 =
                 [Print [Str ''=== Optimal Auction Design Optimization ===''],
                  Print [Str ''Bidder valuations:'', Arr v],
                  Print [Str ''Initial guess (allocations, payments):'', Arr z0],
                  Print [Str (CHR 0x0A # ''--- Running Steepest Descent ---'')],
                  Call_steepest_descent z0]
           in case steepest_descent potential_func z0 (alpha a) (tol a) (max_iter a) of
                Inl e \<Rightarrow> (Inl e, out1)
              | Inr z_sd \<Rightarrow>
                  (let out2 = out1 @ [Print [Str ''Steepest Descent Solution (x and p):'', Arr z_sd]]
                   in case potential_func z_sd of
                        Inl e \<Rightarrow> (Inl e, out2)
                      | Inr f_sd \<Rightarrow>
                          (let revenue_sd = sum_list (drop n z_sd);
                               out3 = out2 @
                                 [Print [Str ''Potential function value (Steepest Descent):'', Num f_sd],
                                  Print [Str ''Achieved Revenue (Steepest Descent):'', Num revenue_sd],
                                  Print [Str (CHR 0x0A # ''--- Running Newton's Method ---'')]];
                               (newton_result, out_newton) =
                                 newton_branch newton potential_func z0 n a;
                               (outcome, out_report) = report v n revenue_sd newton_result
                           in (outcome, out3 @ out_newton @ out_report)))))"

subsection \<open>Notions of the specification\<close>

text \<open>
  The value of the local variable \<open>penalty\<close> of \<open>potential\<close> when \<open>z\<close> has length
  \<open>2 * len(v)\<close>, where the two elementwise operations combine arrays of equal length.
\<close>

definition penalty :: "real list \<Rightarrow> real list \<Rightarrow> real" where
  "penalty z v =
     (let n = length v; x = take n z; p = drop n z
      in hinge_sq_sum (map uminus x) + hinge_sq_sum (map (\<lambda>t. t - 1) x)
         + (max 0 (sum_list x - 1))\<^sup>2 + hinge_sq_sum (map uminus p)
         + hinge_sq_sum (map2 (-) p (map2 (*) v x)))"

text \<open>
  The constraints of the auction on a solution vector \<open>z = x @ p\<close>: every allocation in
  \<open>[0, 1]\<close>, every payment non-negative and at most \<open>v_i * x_i\<close>, total allocation at
  most one.
\<close>

definition feasible :: "real list \<Rightarrow> real list \<Rightarrow> bool" where
  "feasible v z =
     (let n = length v; x = take n z; p = drop n z
      in (\<forall>i\<in>{0..<n}. 0 \<le> x ! i \<and> x ! i \<le> 1 \<and> 0 \<le> p ! i \<and> p ! i \<le> v ! i * x ! i)
         \<and> sum_list x \<le> 1)"

text \<open>\<open>k\<close> is the lowest index at which \<open>v\<close> takes its maximum.\<close>

definition first_max :: "real list \<Rightarrow> nat \<Rightarrow> bool" where
  "first_max v k =
     (k < length v \<and> (\<forall>j\<in>{0..<length v}. v ! j \<le> v ! k) \<and> (\<forall>j\<in>{0..<k}. v ! j < v ! k))"

section \<open>Properties\<close>

subsection \<open>Auxiliary facts\<close>

lemma hinge_sq_sum_nth: "hinge_sq_sum a = (\<Sum>i<length a. (max 0 (a ! i))\<^sup>2)"
  by (simp add: hinge_sq_sum_def sum_list_sum_nth atLeast0LessThan)

lemma hinge_sq_sum_nonneg: "0 \<le> hinge_sq_sum a"
  unfolding hinge_sq_sum_def by (induction a) simp_all

lemma hinge_sq_sum_zero: "\<forall>t\<in>set a. t \<le> 0 \<Longrightarrow> hinge_sq_sum a = 0"
  unfolding hinge_sq_sum_def by (induction a) (simp_all add: max_absorb1)

lemma broadcast2_same: "length a = length b \<Longrightarrow> broadcast2 f a b = Inr (map2 f a b)"
  by (simp add: broadcast2_def)

lemma potential_solution_vector:
  assumes "length z = 2 * length v"
  shows "potential z v \<mu> = Inr (- sum_list (drop (length v) z) + (\<mu> / 2) * penalty z v)"
  using assms by (simp add: potential_def penalty_def Let_def broadcast2_same)

lemma penalty_nonneg: "0 \<le> penalty z v"
  by (simp add: penalty_def Let_def hinge_sq_sum_nonneg)


lemma first_max_unique: "first_max v k \<Longrightarrow> first_max v k' \<Longrightarrow> k = k'"
proof (rule ccontr)
  assume a: "first_max v k" "first_max v k'" and ne: "k \<noteq> k'"
  then consider "k < k'" | "k' < k" by linarith
  then show False
  proof cases
    case 1
    with a have "v ! k < v ! k'" "v ! k' \<le> v ! k" by (auto simp: first_max_def)
    then show False by simp
  next
    case 2
    with a have "v ! k' < v ! k" "v ! k \<le> v ! k'" by (auto simp: first_max_def)
    then show False by simp
  qed
qed

lemma first_max_Max: "first_max v k \<Longrightarrow> v ! k = Max (set v)"
proof -
  assume a: "first_max v k"
  then have k: "k < length v" by (simp add: first_max_def)
  have "Max (set v) \<le> v ! k"
  proof (rule Max.boundedI)
    show "finite (set v)" by simp
    show "set v \<noteq> {}" using k by auto
    fix t assume "t \<in> set v"
    then obtain j where "j < length v" "v ! j = t" by (auto simp: in_set_conv_nth)
    with a show "t \<le> v ! k" by (auto simp: first_max_def)
  qed
  moreover have "v ! k \<le> Max (set v)" using k by simp
  ultimately show ?thesis by simp
qed

lemma argmax_scan_first_max:
  assumes "i \<le> length v" and "best < i" and "bv = v ! best"
    and "\<forall>j<i. v ! j \<le> bv" and "\<forall>j<best. v ! j < bv"
  shows "first_max v (argmax_scan (drop i v) i best bv)"
  using assms
proof (induction "length v - i" arbitrary: i best bv)
  case 0
  then have "drop i v = []" by simp
  with 0 show ?case by (auto simp: first_max_def)
next
  case (Suc d)
  then have i: "i < length v" by simp
  then have dr: "drop i v = v ! i # drop (Suc i) v" by (simp add: Cons_nth_drop_Suc)
  have d: "d = length v - Suc i" using Suc.hyps(2) by simp
  show ?case
  proof (cases "bv < v ! i")
    case True
    have "first_max v (argmax_scan (drop (Suc i) v) (Suc i) i (v ! i))"
    proof (rule Suc.hyps(1) [OF d])
      show "Suc i \<le> length v" using i by simp
      show "i < Suc i" by simp
      show "v ! i = v ! i" by simp
      show "\<forall>j<Suc i. v ! j \<le> v ! i" using Suc.prems(4) True by (auto simp: less_Suc_eq)
      show "\<forall>j<i. v ! j < v ! i" using Suc.prems(4) True by fastforce
    qed
    with True dr show ?thesis by simp
  next
    case False
    have "first_max v (argmax_scan (drop (Suc i) v) (Suc i) best bv)"
    proof (rule Suc.hyps(1) [OF d])
      show "Suc i \<le> length v" using i by simp
      show "best < Suc i" using Suc.prems(2) by simp
      show "bv = v ! best" by (rule Suc.prems(3))
      show "\<forall>j<Suc i. v ! j \<le> bv" using Suc.prems(4) False by (auto simp: less_Suc_eq)
      show "\<forall>j<best. v ! j < bv" by (rule Suc.prems(5))
    qed
    with False dr show ?thesis by simp
  qed
qed

lemma argmax_first_max:
  assumes "v \<noteq> []"
  shows "\<exists>k. argmax v = Inr k \<and> first_max v k"
proof -
  from assms obtain y ys where v: "v = y # ys" by (cases v) auto
  have "first_max v (argmax_scan (drop 1 v) 1 0 (v ! 0))"
    by (rule argmax_scan_first_max) (use v in auto)
  then show ?thesis by (simp add: v argmax_def)
qed

lemma argmax_eq: "first_max v k \<Longrightarrow> argmax v = Inr k"
proof -
  assume a: "first_max v k"
  then have "v \<noteq> []" by (auto simp: first_max_def)
  then obtain k' where "argmax v = Inr k'" "first_max v k'" using argmax_first_max by blast
  with a show ?thesis using first_max_unique by blast
qed

lemma argmax_empty: "argmax [] = Inl (ValueError ''attempt to get argmax of an empty sequence'')"
  by (simp add: argmax_def)

lemma analytical_first_max:
  assumes "first_max v k"
  shows "analytical_optimal_solution v =
           Inr ((replicate (length v) 0)[k := 1] @ (replicate (length v) 0)[k := v ! k])"
  using assms by (simp add: analytical_optimal_solution_def argmax_eq Let_def)

lemma unit_vector_nth:
  "i < n \<Longrightarrow> (replicate n (0::real))[k := c] ! i = (if i = k then c else 0)"
  by (simp add: nth_list_update)

lemma sum_list_zeros: "sum_list (replicate n (0::real)) = 0"
  by (induction n) simp_all

lemma sum_list_unit_vector: "k < n \<Longrightarrow> sum_list ((replicate n (0::real))[k := c]) = c"
proof (induction n arbitrary: k)
  case 0
  then show ?case by simp
next
  case (Suc n)
  then show ?case by (cases k) (simp_all add: sum_list_zeros)
qed

lemma analytical_pointwise:
  assumes "first_max v k"
  shows "\<exists>z. analytical_optimal_solution v = Inr z \<and> length z = 2 * length v
           \<and> (\<forall>i\<in>{0..<length v}. z ! i = (if i = k then 1 else 0))
           \<and> (\<forall>i\<in>{0..<length v}. z ! (length v + i) = (if i = k then v ! k else 0))"
  unfolding analytical_first_max [OF assms]
  by (simp add: nth_append nth_list_update)

lemma feasible_penalty_zero:
  assumes "length z = 2 * length v" and "feasible v z"
  shows "penalty z v = 0"
proof -
  let ?n = "length v"
  let ?x = "take ?n z"
  let ?p = "drop ?n z"
  have lx: "length ?x = ?n" and lp: "length ?p = ?n" using assms(1) by simp_all
  have f: "\<And>i. i < ?n \<Longrightarrow> 0 \<le> ?x ! i \<and> ?x ! i \<le> 1 \<and> 0 \<le> ?p ! i \<and> ?p ! i \<le> v ! i * ?x ! i"
    using assms(2) by (simp add: feasible_def Let_def)
  have s: "sum_list ?x \<le> 1" using assms(2) by (simp add: feasible_def Let_def)
  have h1: "hinge_sq_sum (map uminus ?x) = 0"
    by (rule hinge_sq_sum_zero) (use f lx in \<open>auto simp: in_set_conv_nth\<close>)
  have h2: "hinge_sq_sum (map (\<lambda>t. t - 1) ?x) = 0"
    by (rule hinge_sq_sum_zero) (use f lx in \<open>auto simp: in_set_conv_nth\<close>)
  have h3: "hinge_sq_sum (map uminus ?p) = 0"
    by (rule hinge_sq_sum_zero) (use f lp in \<open>auto simp: in_set_conv_nth\<close>)
  have h4: "hinge_sq_sum (map2 (-) ?p (map2 (*) v ?x)) = 0"
    by (rule hinge_sq_sum_zero) (use f lx lp in \<open>auto simp: in_set_conv_nth\<close>)
  have h5: "max 0 (sum_list ?x - 1) = 0" using s by simp
  show ?thesis unfolding penalty_def Let_def h1 h2 h3 h4 h5 by simp
qed

lemma potential_feasible:
  assumes "length z = 2 * length v" and "feasible v z"
  shows "potential z v \<mu> = Inr (- sum_list (drop (length v) z))"
  by (simp add: potential_solution_vector [OF assms(1)] feasible_penalty_zero [OF assms])

lemma feasible_example: "feasible [10, 20, 15] [0, 1, 0, 0, 0, 0]"
  by (simp add: feasible_def Let_def eval_nat_numeral atLeastLessThanSuc)

lemma initial_guess_eq:
  "initial_guess n = replicate n (round_f64 (1 / real n)) @ replicate n 0"
  by (simp add: initial_guess_def Let_def)

lemma round_f64_one: "round_f64 1 = 1"
  by (simp add: round_f64_def normalise.simps round_half_even_def)

lemma round_f64_twentieth: "round_f64 (1 / 20) = 7205759403792794 / 2^57"
  by (simp add: round_f64_def normalise.simps round_half_even_def)

lemma hinge_sq_sum_replicate: "hinge_sq_sum (replicate n t) = real n * (max 0 t)\<^sup>2"
  by (simp add: hinge_sq_sum_def sum_list_replicate)


lemma unique_max_first_max:
  assumes "k < length v" and "\<forall>j\<in>{0..<length v}. j \<noteq> k \<longrightarrow> v ! j < v ! k"
  shows "first_max v k"
  unfolding first_max_def
proof (intro conjI ballI)
  show "k < length v" by (rule assms(1))
next
  fix j assume "j \<in> {0..<length v}"
  then show "v ! j \<le> v ! k" using assms(2) by (cases "j = k") (auto simp: less_imp_le)
next
  fix j assume "j \<in> {0..<k}"
  then show "v ! j < v ! k" using assms by auto
qed

lemma lowest_max_first_max:
  assumes "k < length v" and "v ! k = Max (set v)" and "\<forall>j\<in>{0..<k}. v ! j \<noteq> Max (set v)"
  shows "first_max v k"
  unfolding first_max_def
proof (intro conjI ballI)
  show "k < length v" by (rule assms(1))
next
  fix j assume "j \<in> {0..<length v}"
  then show "v ! j \<le> v ! k" using assms(2) by simp
next
  fix j assume j: "j \<in> {0..<k}"
  then have "v ! j \<le> Max (set v)" using assms(1) by simp
  moreover have "v ! j \<noteq> Max (set v)" using assms(3) j by blast
  ultimately show "v ! j < v ! k" using assms(2) by simp
qed

lemma split_comma_nonempty: "split_comma s \<noteq> []"
  by (induction s) (auto split: list.splits)

lemma float_each_None:
  "tok \<in> set toks \<Longrightarrow> pyfloat (strip tok) = None \<Longrightarrow> float_each pyfloat toks = None"
  by (induction toks) (auto split: option.splits)

lemma float_each_length: "float_each pyfloat toks = Some rs \<Longrightarrow> length rs = length toks"
  by (induction toks arbitrary: rs) (auto split: option.splits)

lemma parse_valuations_nonempty: "parse_valuations pyfloat s = Inr v \<Longrightarrow> v \<noteq> []"
proof -
  assume "parse_valuations pyfloat s = Inr v"
  then have "float_each pyfloat (split_comma s) = Some v"
    by (simp add: parse_valuations_def split: option.splits)
  then have "length v = length (split_comma s)" by (rule float_each_length)
  then show ?thesis using split_comma_nonempty [of s] by auto
qed

lemma parse_valuations_malformed:
  "tok \<in> set (split_comma s) \<Longrightarrow> pyfloat (strip tok) = None \<Longrightarrow>
   parse_valuations pyfloat s =
     Inl (ValueError ''Error parsing valuations. Ensure they are comma-separated numbers.'')"
  by (simp add: parse_valuations_def float_each_None)

lemma split_example: "split_comma ''10,abc,15'' = [''10'', ''abc'', ''15'']"
  by simp

lemma decimal_integer_abc: "decimal_integer (strip ''abc'') = None"
  by (simp add: strip_def is_space_def decimal_integer_def digit_of_def)

lemma analytical_revenue:
  assumes "v \<noteq> []"
  shows "\<exists>z_opt. analytical_optimal_solution v = Inr z_opt
           \<and> sum_list (drop (length v) z_opt) = Max (set v)"
proof -
  from assms obtain k where k: "first_max v k" using argmax_first_max by blast
  then have kn: "k < length v" by (simp add: first_max_def)
  have "sum_list ((replicate (length v) (0::real))[k := v ! k]) = Max (set v)"
    using kn by (simp add: sum_list_unit_vector first_max_Max [OF k])
  then show ?thesis by (simp add: analytical_first_max [OF k])
qed

lemma report_events:
  assumes "v \<noteq> []"
  shows "\<exists>z_opt. report v (length v) revenue_sd newton_result =
           (Inr (),
            [Print [Str (CHR 0x0A # ''--- Analytical Optimal Solution ---'')],
             Print [Str ''Analytical Optimal (x and p):'', Arr z_opt],
             Print [Str ''Optimal Revenue:'', Num (Max (set v))],
             Print [Str (CHR 0x0A # ''--- Comparison ---'')],
             Print [Formatted ''Steepest Descent Revenue Error: {:.6f}''
                      \<bar>Max (set v) - revenue_sd\<bar>],
             (case newton_result of
                Some (z_newton, revenue_newton) \<Rightarrow>
                  Print [Formatted ''Newton's Method Revenue Error: {:.6f}''
                           \<bar>Max (set v) - revenue_newton\<bar>]
              | None \<Rightarrow> Print [Str ''Newton's Method did not produce a solution.''])])"
proof -
  from analytical_revenue [OF assms] obtain z_opt where
    "analytical_optimal_solution v = Inr z_opt" "sum_list (drop (length v) z_opt) = Max (set v)"
    by blast
  then show ?thesis by (simp add: report_def Let_def)
qed

lemma newton_branch_raises:
  assumes "newton potential_func z0 (tol a) (max_iter_newton a) = Inl e"
  shows "newton_branch newton potential_func z0 n a =
           (None, [Call_newton z0, Print [Str ''Newton's method failed with error:'', Exc e]])"
  using assms by (simp add: newton_branch_def)

lemma newton_branch_returns:
  assumes "newton (\<lambda>z. potential z v \<mu>) z0 (tol a) (max_iter_newton a) = Inr z_newton"
    and "length z_newton = 2 * length v"
  shows "\<exists>f_newton. newton_branch newton (\<lambda>z. potential z v \<mu>) z0 (length v) a =
           (Some (z_newton, sum_list (drop (length v) z_newton)),
            [Call_newton z0,
             Print [Str ''Newton's Method Solution (x and p):'', Arr z_newton],
             Print [Str ''Potential function value (Newton):'', Num f_newton],
             Print [Str ''Achieved Revenue (Newton):'', Num (sum_list (drop (length v) z_newton))]])"
  using assms by (simp add: newton_branch_def Let_def potential_solution_vector)

lemma main_after_steepest_descent:
  assumes "parse_valuations pyfloat (valuations a) = Inr v"
    and "steepest_descent (\<lambda>z. potential z v (mu a)) (initial_guess (length v))
           (alpha a) (tol a) (max_iter a) = Inr z_sd"
    and "length z_sd = 2 * length v"
  shows "\<exists>f_sd. main pyfloat steepest_descent newton a =
     (fst (report v (length v) (sum_list (drop (length v) z_sd))
             (fst (newton_branch newton (\<lambda>z. potential z v (mu a))
                     (initial_guess (length v)) (length v) a))),
      [Print [Str ''=== Optimal Auction Design Optimization ===''],
       Print [Str ''Bidder valuations:'', Arr v],
       Print [Str ''Initial guess (allocations, payments):'', Arr (initial_guess (length v))],
       Print [Str (CHR 0x0A # ''--- Running Steepest Descent ---'')],
       Call_steepest_descent (initial_guess (length v)),
       Print [Str ''Steepest Descent Solution (x and p):'', Arr z_sd],
       Print [Str ''Potential function value (Steepest Descent):'', Num f_sd],
       Print [Str ''Achieved Revenue (Steepest Descent):'', Num (sum_list (drop (length v) z_sd))],
       Print [Str (CHR 0x0A # ''--- Running Newton's Method ---'')]]
      @ snd (newton_branch newton (\<lambda>z. potential z v (mu a))
               (initial_guess (length v)) (length v) a)
      @ snd (report v (length v) (sum_list (drop (length v) z_sd))
               (fst (newton_branch newton (\<lambda>z. potential z v (mu a))
                       (initial_guess (length v)) (length v) a))))"
  using assms
  by (simp add: main_def Let_def potential_solution_vector split: prod.splits)

lemma parse_example: "parse_valuations decimal_integer ''10,20,15'' = Inr [10, 20, 15]"
  by (simp add: parse_valuations_def strip_def is_space_def decimal_integer_def digit_of_def)

lemma main_reaches_steepest_descent:
  assumes "parse_valuations pyfloat (valuations a) = Inr v"
  shows "Call_steepest_descent (initial_guess (length v))
           \<in> set (snd (main pyfloat steepest_descent newton a))"
  using assms
  by (simp add: main_def Let_def split: sum.splits prod.splits)

lemma split_comma_empty: "split_comma [] = [[]]"
  by simp

lemma strip_empty: "strip [] = []"
  by (simp add: strip_def)

lemma parse_single: "parse_valuations decimal_integer ''5'' = Inr [5]"
  by (simp add: parse_valuations_def strip_def is_space_def decimal_integer_def digit_of_def)

subsection \<open>The claims\<close>

text \<open>
  C1. For a valuation vector \<open>v\<close> of length \<open>n \<ge> 1\<close> and a solution vector \<open>z\<close> of
  length \<open>2n\<close> with \<open>x_i = z[i]\<close> and \<open>p_i = z[n + i]\<close>, \<open>potential\<close> returns the negated
  total payment plus \<open>mu / 2\<close> times the sum of the squared-hinge penalty terms:
  allocation below zero, allocation above one, total allocation above one, negative
  payment, payment above \<open>v_i * x_i\<close>.
\<close>

theorem potential_formula:
  assumes "length v = n" and "1 \<le> n" and "length z = 2 * n"
  shows "potential z v \<mu> =
     Inr (- (\<Sum>i<n. z ! (n + i))
          + (\<mu> / 2) * ((\<Sum>i<n. (max 0 (- z ! i))\<^sup>2) + (\<Sum>i<n. (max 0 (z ! i - 1))\<^sup>2)
                        + (max 0 ((\<Sum>i<n. z ! i) - 1))\<^sup>2
                        + (\<Sum>i<n. (max 0 (- z ! (n + i)))\<^sup>2)
                        + (\<Sum>i<n. (max 0 (z ! (n + i) - v ! i * z ! i))\<^sup>2)))"
proof -
  have lz: "length z = 2 * length v" using assms by simp
  have lx: "length (take n z) = n" and lp: "length (drop n z) = n"
    using assms by simp_all
  have sp: "sum_list (drop n z) = (\<Sum>i<n. z ! (n + i))"
    using assms by (simp add: sum_list_sum_nth atLeast0LessThan)
  have sx: "sum_list (take n z) = (\<Sum>i<n. z ! i)"
    using assms by (simp add: sum_list_sum_nth atLeast0LessThan)
  have h1: "hinge_sq_sum (map uminus (take n z)) = (\<Sum>i<n. (max 0 (- z ! i))\<^sup>2)"
    using assms by (simp add: hinge_sq_sum_nth)
  have h2: "hinge_sq_sum (map (\<lambda>t. t - 1) (take n z)) = (\<Sum>i<n. (max 0 (z ! i - 1))\<^sup>2)"
    using assms by (simp add: hinge_sq_sum_nth)
  have h3: "hinge_sq_sum (map uminus (drop n z)) = (\<Sum>i<n. (max 0 (- z ! (n + i)))\<^sup>2)"
    using assms by (simp add: hinge_sq_sum_nth)
  have h4: "hinge_sq_sum (map2 (-) (drop n z) (map2 (*) v (take n z)))
              = (\<Sum>i<n. (max 0 (z ! (n + i) - v ! i * z ! i))\<^sup>2)"
    using assms by (simp add: hinge_sq_sum_nth)
  show ?thesis
    unfolding potential_solution_vector [OF lz] penalty_def Let_def
    using assms(1) sp sx h1 h2 h3 h4 by simp
qed

theorem potential_formula_witness:
  "length [10, 20, 15 :: real] = 3 \<and> (1::nat) \<le> 3
   \<and> length [1/2, 7/10, - 1/10, 3, - 1, 2 :: real] = 2 * 3
   \<and> potential [1/2, 7/10, - 1/10, 3, - 1, 2] [10, 20, 15] 100 = Inr (1319 / 2)"
  using potential_formula [of "[10, 20, 15]" 3 "[1/2, 7/10, - 1/10, 3, - 1, 2]" 100]
  by (simp add: eval_nat_numeral lessThan_Suc power2_eq_square)

text \<open>
  C2. When \<open>v\<close> has a unique maximum, at index \<open>k\<close>, \<open>analytical_optimal_solution\<close>
  returns a vector of length \<open>2n\<close> whose allocation part is 1 at \<open>k\<close> and 0 elsewhere and
  whose payment part is the maximum valuation at \<open>k\<close> and 0 elsewhere. For the single
  bidder \<open>v = [5]\<close> it returns \<open>x = [1]\<close>, \<open>p = [5]\<close>, and the revenue, the sum of the
  payment part, is 5.
\<close>

theorem analytical_unique_max:
  "(\<forall>v k. k < length v \<and> (\<forall>j\<in>{0..<length v}. j \<noteq> k \<longrightarrow> v ! j < v ! k)
      \<longrightarrow> (\<exists>z. analytical_optimal_solution v = Inr z \<and> length z = 2 * length v
              \<and> v ! k = Max (set v)
              \<and> (\<forall>i\<in>{0..<length v}. z ! i = (if i = k then 1 else 0))
              \<and> (\<forall>i\<in>{0..<length v}. z ! (length v + i) = (if i = k then v ! k else 0))))
   \<and> analytical_optimal_solution [5] = Inr [1, 5]
   \<and> sum_list (drop (length [5 :: real]) [1, 5 :: real]) = 5"
proof (intro conjI allI impI)
  fix v :: "real list" and k
  assume a: "k < length v \<and> (\<forall>j\<in>{0..<length v}. j \<noteq> k \<longrightarrow> v ! j < v ! k)"
  then have f: "first_max v k" by (simp add: unique_max_first_max)
  from analytical_pointwise [OF f] first_max_Max [OF f]
  show "\<exists>z. analytical_optimal_solution v = Inr z \<and> length z = 2 * length v
              \<and> v ! k = Max (set v)
              \<and> (\<forall>i\<in>{0..<length v}. z ! i = (if i = k then 1 else 0))
              \<and> (\<forall>i\<in>{0..<length v}. z ! (length v + i) = (if i = k then v ! k else 0))"
    by blast
next
  show "analytical_optimal_solution [5] = Inr [1, 5]"
    by (simp add: analytical_optimal_solution_def argmax_def)
next
  show "sum_list (drop (length [5 :: real]) [1, 5 :: real]) = 5" by simp
qed

theorem analytical_unique_max_witness:
  "(1::nat) < length [10, 20, 15 :: real]
   \<and> [10, 20, 15 :: real] ! 0 < [10, 20, 15] ! 1 \<and> [10, 20, 15 :: real] ! 2 < [10, 20, 15] ! 1
   \<and> analytical_optimal_solution [10, 20, 15] = Inr [0, 1, 0, 0, 20, 0]"
proof -
  have "(1::nat) < length [10, 20, 15 :: real]
          \<and> (\<forall>j\<in>{0..<length [10, 20, 15 :: real]}. j \<noteq> 1 \<longrightarrow> [10, 20, 15 :: real] ! j < [10, 20, 15] ! 1)"
    by (simp add: eval_nat_numeral atLeastLessThanSuc)
  with analytical_unique_max
  obtain z where "analytical_optimal_solution [10, 20, 15] = Inr z" by blast
  moreover have "analytical_optimal_solution [10, 20, 15] = Inr [0, 1, 0, 0, 20, 0]"
    by (simp add: analytical_optimal_solution_def argmax_def Let_def eval_nat_numeral)
  ultimately show ?thesis by simp
qed

text \<open>
  C3. When two or more bidders share the maximum valuation and \<open>k\<close> is the lowest index
  that attains it, \<open>analytical_optimal_solution\<close> allocates 1 and charges the maximum
  valuation exactly at \<open>k\<close>, and both parts are 0 at every other index. The result is a
  function of \<open>v\<close> alone, so every call gives the same vector.
\<close>

theorem analytical_tie_break:
  assumes "k < length v" and "v ! k = Max (set v)"
    and "\<forall>j\<in>{0..<k}. v ! j \<noteq> Max (set v)"
    and "\<exists>j\<in>{0..<length v}. j \<noteq> k \<and> v ! j = Max (set v)"
  shows "\<exists>z. analytical_optimal_solution v = Inr z \<and> length z = 2 * length v
           \<and> (\<forall>i\<in>{0..<length v}. z ! i = (if i = k then 1 else 0))
           \<and> (\<forall>i\<in>{0..<length v}. z ! (length v + i) = (if i = k then Max (set v) else 0))"
proof -
  have f: "first_max v k" by (rule lowest_max_first_max [OF assms(1-3)])
  from analytical_pointwise [OF f] show ?thesis unfolding assms(2) [symmetric] .
qed

theorem analytical_tie_break_witness:
  "(1::nat) < length [7, 20, 20, 3 :: real]
   \<and> [7, 20, 20, 3 :: real] ! 1 = Max (set [7, 20, 20, 3])
   \<and> [7, 20, 20, 3 :: real] ! 0 \<noteq> Max (set [7, 20, 20, 3])
   \<and> [7, 20, 20, 3 :: real] ! 2 = Max (set [7, 20, 20, 3])
   \<and> analytical_optimal_solution [7, 20, 20, 3] = Inr [0, 1, 0, 0, 0, 20, 0, 0]"
proof -
  let ?v = "[7, 20, 20, 3 :: real]"
  have h1: "1 < length ?v" by simp
  have h2: "?v ! 1 = Max (set ?v)" by simp
  have h3: "\<forall>j\<in>{0..<1}. ?v ! j \<noteq> Max (set ?v)" by simp
  have h4: "\<exists>j\<in>{0..<length ?v}. j \<noteq> 1 \<and> ?v ! j = Max (set ?v)"
    by (rule bexI [of _ 2]) simp_all
  from analytical_tie_break [OF h1 h2 h3 h4]
  obtain z where z: "analytical_optimal_solution ?v = Inr z" by blast
  moreover have "analytical_optimal_solution ?v = Inr [0, 1, 0, 0, 0, 20, 0, 0]"
    by (simp add: analytical_optimal_solution_def argmax_def Let_def eval_nat_numeral)
  ultimately show ?thesis by simp
qed

text \<open>
  C4. At a solution vector \<open>z\<close> of length \<open>2n\<close>, \<open>n \<ge> 1\<close>, that satisfies every
  constraint, the penalty is zero and \<open>potential\<close> returns exactly the negated sum of the
  payments, whatever \<open>mu\<close> is; for \<open>v = [10, 20, 15]\<close> and \<open>z = [0, 1, 0, 0, 0, 0]\<close> the
  potential is 0.
\<close>

theorem potential_feasible_point:
  "(\<forall>v z \<mu>. 1 \<le> length v \<and> length z = 2 * length v \<and> feasible v z
       \<longrightarrow> penalty z v = 0 \<and> potential z v \<mu> = Inr (- sum_list (drop (length v) z)))
   \<and> (\<forall>\<mu>. feasible [10, 20, 15] [0, 1, 0, 0, 0, 0]
          \<and> potential [0, 1, 0, 0, 0, 0] [10, 20, 15] \<mu> = Inr 0)"
proof (intro conjI allI impI)
  fix v z :: "real list" and \<mu> :: real
  assume a: "1 \<le> length v \<and> length z = 2 * length v \<and> feasible v z"
  then show "penalty z v = 0" by (simp add: feasible_penalty_zero)
  from a show "potential z v \<mu> = Inr (- sum_list (drop (length v) z))"
    by (simp add: potential_feasible)
next
  show "feasible [10, 20, 15] [0, 1, 0, 0, 0, 0]" by (rule feasible_example)
next
  fix \<mu> :: real
  show "potential [0, 1, 0, 0, 0, 0] [10, 20, 15] \<mu> = Inr 0"
    using potential_feasible [OF _ feasible_example, of \<mu>] by simp
qed

theorem potential_feasible_point_witness:
  "1 \<le> length [10, 20, 15 :: real]
   \<and> length [0, 1, 0, 0, 20, 0 :: real] = 2 * length [10, 20, 15 :: real]
   \<and> feasible [10, 20, 15] [0, 1, 0, 0, 20, 0]
   \<and> penalty [0, 1, 0, 0, 20, 0] [10, 20, 15] = 0
   \<and> potential [0, 1, 0, 0, 20, 0] [10, 20, 15] 100 = Inr (- 20)"
proof -
  have f: "feasible [10, 20, 15] [0, 1, 0, 0, 20, 0]"
    by (simp add: feasible_def Let_def eval_nat_numeral atLeastLessThanSuc)
  from potential_feasible_point
  have "1 \<le> length [10, 20, 15 :: real]
          \<and> length [0, 1, 0, 0, 20, 0 :: real] = 2 * length [10, 20, 15 :: real]
          \<and> feasible [10, 20, 15] [0, 1, 0, 0, 20, 0]
        \<longrightarrow> penalty [0, 1, 0, 0, 20, 0] [10, 20, 15] = 0
            \<and> potential [0, 1, 0, 0, 20, 0] [10, 20, 15] 100
                = Inr (- sum_list (drop (length [10, 20, 15 :: real]) [0, 1, 0, 0, 20, 0]))"
    by blast
  with f show ?thesis by simp
qed

text \<open>
  C5. For a fixed solution vector \<open>z\<close> of length \<open>2n\<close> the potential is non-decreasing in
  the penalty parameter: \<open>mu1 \<le> mu2\<close> gives \<open>potential(z, v, mu1) \<le> potential(z, v, mu2)\<close>.
  This holds at every such \<open>z\<close>, hence at every \<open>z\<close> that violates a constraint; the
  instance below is at a vector that violates two of them.
\<close>

theorem potential_mono_mu:
  assumes "length z = 2 * length v" and "\<mu>1 \<le> \<mu>2"
  shows "\<exists>a b. potential z v \<mu>1 = Inr a \<and> potential z v \<mu>2 = Inr b \<and> a \<le> b"
proof -
  have "\<mu>1 / 2 * penalty z v \<le> \<mu>2 / 2 * penalty z v"
    using assms(2) penalty_nonneg [of z v] by (simp add: mult_right_mono)
  then show ?thesis by (simp add: potential_solution_vector [OF assms(1)])
qed

theorem potential_mono_mu_witness:
  "length [2, 0, 0, 0 :: real] = 2 * length [3, 4 :: real] \<and> (1::real) \<le> 100
   \<and> \<not> feasible [3, 4] [2, 0, 0, 0]
   \<and> potential [2, 0, 0, 0] [3, 4] 1 = Inr 1
   \<and> potential [2, 0, 0, 0] [3, 4] 100 = Inr 100"
proof -
  have e: "potential [2, 0, 0, 0] [3, 4] \<mu> = Inr (\<mu>)" for \<mu>
    by (simp add: potential_def Let_def broadcast2_def hinge_sq_sum_def power2_eq_square)
  have nf: "\<not> feasible [3, 4] [2, 0, 0, 0]"
    by (simp add: feasible_def Let_def eval_nat_numeral atLeastLessThanSuc)
  have "\<exists>a b. potential [2, 0, 0, 0] [3, 4] 1 = Inr a \<and> potential [2, 0, 0, 0] [3, 4] 100 = Inr b \<and> a \<le> b"
    by (rule potential_mono_mu) simp_all
  with e nf show ?thesis by simp
qed

text \<open>
  C6. When some comma-separated token of the valuations string is one that \<open>float\<close>
  rejects, \<open>main\<close> ends with the ValueError that names the expected format, and the run
  has no event at all: nothing is printed and neither solver is called.
\<close>

theorem main_malformed_valuations:
  assumes "tok \<in> set (split_comma (valuations a))" and "pyfloat (strip tok) = None"
  shows "main pyfloat steepest_descent newton a =
           (Inl (ValueError ''Error parsing valuations. Ensure they are comma-separated numbers.''),
            [])"
  using assms by (simp add: main_def parse_valuations_malformed [of tok _ pyfloat])

theorem main_malformed_valuations_witness:
  "''abc'' \<in> set (split_comma ''10,abc,15'') \<and> decimal_integer (strip ''abc'') = None
   \<and> main decimal_integer (\<lambda>f z0 al t m. Inr z0) (\<lambda>f z0 t m. Inr z0)
        \<lparr>valuations = ''10,abc,15'', mu = 100, alpha = 1/100, tol = 1/1000000,
         max_iter = 1000, max_iter_newton = 100\<rparr>
      = (Inl (ValueError ''Error parsing valuations. Ensure they are comma-separated numbers.''),
         [])"
proof -
  have h1: "''abc'' \<in> set (split_comma (valuations
        \<lparr>valuations = ''10,abc,15'', mu = 100, alpha = 1/100, tol = 1/1000000,
         max_iter = 1000, max_iter_newton = 100\<rparr>))"
    by (simp add: split_example)
  show ?thesis
    using main_malformed_valuations [of "''abc''" _ decimal_integer, OF h1 decimal_integer_abc]
      h1 decimal_integer_abc
    by simp
qed

text \<open>
  C7. The solvers are outside this file, so the statement is about every pair of
  solvers that keep to their interface: steepest descent returns a solution vector
  (length \<open>2n\<close>), and Newton's method raises or returns a solution vector. On every such
  run whose valuations parse, \<open>main\<close> completes normally and reports the analytical
  revenue and the steepest-descent revenue error. The Newton revenue error is reported
  exactly when the Newton solver returned a vector. When it raised, the handler leaves no
  result (\<open>z_newton = None\<close>), the failure is printed, and the report says that Newton's
  method did not produce a solution.
\<close>

theorem main_newton_failure_contained:
  assumes "parse_valuations pyfloat (valuations a) = Inr v"
    and "steepest_descent (\<lambda>z. potential z v (mu a)) (initial_guess (length v))
           (alpha a) (tol a) (max_iter a) = Inr z_sd"
    and "length z_sd = 2 * length v"
    and "\<forall>z. newton (\<lambda>z. potential z v (mu a)) (initial_guess (length v))
               (tol a) (max_iter_newton a) = Inr z \<longrightarrow> length z = 2 * length v"
  shows "let run = main pyfloat steepest_descent newton a;
             potential_func = (\<lambda>z. potential z v (mu a));
             z0 = initial_guess (length v);
             result = newton potential_func z0 (tol a) (max_iter_newton a)
         in fst run = Inr ()
            \<and> Print [Str ''Optimal Revenue:'', Num (Max (set v))] \<in> set (snd run)
            \<and> Print [Formatted ''Steepest Descent Revenue Error: {:.6f}''
                        \<bar>Max (set v) - sum_list (drop (length v) z_sd)\<bar>] \<in> set (snd run)
            \<and> ((\<exists>r. Print [Formatted ''Newton's Method Revenue Error: {:.6f}'' r] \<in> set (snd run))
                 \<longleftrightarrow> (\<exists>z. result = Inr z))
            \<and> (\<forall>z. result = Inr z \<longrightarrow>
                   Print [Formatted ''Newton's Method Revenue Error: {:.6f}''
                            \<bar>Max (set v) - sum_list (drop (length v) z)\<bar>] \<in> set (snd run))
            \<and> (\<forall>e. result = Inl e \<longrightarrow>
                   fst (newton_branch newton potential_func z0 (length v) a) = None
                   \<and> Print [Str ''Newton's method failed with error:'', Exc e] \<in> set (snd run)
                   \<and> Print [Str ''Newton's Method did not produce a solution.''] \<in> set (snd run))"
proof -
  let ?f = "\<lambda>z. potential z v (mu a)"
  let ?z0 = "initial_guess (length v)"
  let ?nb = "newton_branch newton ?f ?z0 (length v) a"
  let ?rs = "sum_list (drop (length v) z_sd)"
  have ne: "v \<noteq> []" by (rule parse_valuations_nonempty [OF assms(1)])
  from main_after_steepest_descent [where pyfloat = pyfloat and steepest_descent = steepest_descent
      and newton = newton, OF assms(1-3)]
  obtain f_sd where run: "main pyfloat steepest_descent newton a =
     (fst (report v (length v) ?rs (fst ?nb)),
      [Print [Str ''=== Optimal Auction Design Optimization ===''],
       Print [Str ''Bidder valuations:'', Arr v],
       Print [Str ''Initial guess (allocations, payments):'', Arr ?z0],
       Print [Str (CHR 0x0A # ''--- Running Steepest Descent ---'')],
       Call_steepest_descent ?z0,
       Print [Str ''Steepest Descent Solution (x and p):'', Arr z_sd],
       Print [Str ''Potential function value (Steepest Descent):'', Num f_sd],
       Print [Str ''Achieved Revenue (Steepest Descent):'', Num ?rs],
       Print [Str (CHR 0x0A # ''--- Running Newton's Method ---'')]]
      @ snd ?nb @ snd (report v (length v) ?rs (fst ?nb)))"
    by blast
  show ?thesis
  proof (cases "newton ?f ?z0 (tol a) (max_iter_newton a)")
    case (Inl e)
    have nb: "?nb = (None, [Call_newton ?z0, Print [Str ''Newton's method failed with error:'', Exc e]])"
      by (rule newton_branch_raises [where newton = newton, OF Inl])
    from report_events [OF ne, of ?rs None]
    obtain z_opt where rep: "report v (length v) ?rs None =
           (Inr (),
            [Print [Str (CHR 0x0A # ''--- Analytical Optimal Solution ---'')],
             Print [Str ''Analytical Optimal (x and p):'', Arr z_opt],
             Print [Str ''Optimal Revenue:'', Num (Max (set v))],
             Print [Str (CHR 0x0A # ''--- Comparison ---'')],
             Print [Formatted ''Steepest Descent Revenue Error: {:.6f}'' \<bar>Max (set v) - ?rs\<bar>],
             Print [Str ''Newton's Method did not produce a solution.'']])"
      by auto
    show ?thesis unfolding Let_def run nb by (simp add: rep Inl)
  next
    case (Inr z)
    have lz: "length z = 2 * length v" using assms(4) Inr by blast
    from newton_branch_returns [where newton = newton, OF Inr lz]
    obtain f_newton where nb: "?nb =
           (Some (z, sum_list (drop (length v) z)),
            [Call_newton ?z0,
             Print [Str ''Newton's Method Solution (x and p):'', Arr z],
             Print [Str ''Potential function value (Newton):'', Num f_newton],
             Print [Str ''Achieved Revenue (Newton):'', Num (sum_list (drop (length v) z))]])"
      by blast
    from report_events [OF ne, of ?rs "Some (z, sum_list (drop (length v) z))"]
    obtain z_opt where rep: "report v (length v) ?rs (Some (z, sum_list (drop (length v) z))) =
           (Inr (),
            [Print [Str (CHR 0x0A # ''--- Analytical Optimal Solution ---'')],
             Print [Str ''Analytical Optimal (x and p):'', Arr z_opt],
             Print [Str ''Optimal Revenue:'', Num (Max (set v))],
             Print [Str (CHR 0x0A # ''--- Comparison ---'')],
             Print [Formatted ''Steepest Descent Revenue Error: {:.6f}'' \<bar>Max (set v) - ?rs\<bar>],
             Print [Formatted ''Newton's Method Revenue Error: {:.6f}''
                      \<bar>Max (set v) - sum_list (drop (length v) z)\<bar>]])"
      by auto
    show ?thesis unfolding Let_def run nb by (simp add: rep Inr)
  qed
qed

theorem main_newton_failure_contained_witness:
  "parse_valuations decimal_integer ''10,20,15'' = Inr [10, 20, 15]
   \<and> fst (main decimal_integer (\<lambda>f z0 al t m. Inr z0) (\<lambda>f z0 t m. Inl (Exception ''Singular matrix''))
           \<lparr>valuations = ''10,20,15'', mu = 100, alpha = 1/100, tol = 1/1000000,
            max_iter = 1000, max_iter_newton = 100\<rparr>) = Inr ()
   \<and> Print [Formatted ''Steepest Descent Revenue Error: {:.6f}'' 20]
       \<in> set (snd (main decimal_integer (\<lambda>f z0 al t m. Inr z0)
             (\<lambda>f z0 t m. Inl (Exception ''Singular matrix''))
           \<lparr>valuations = ''10,20,15'', mu = 100, alpha = 1/100, tol = 1/1000000,
            max_iter = 1000, max_iter_newton = 100\<rparr>))
   \<and> Print [Str ''Newton's Method did not produce a solution.'']
       \<in> set (snd (main decimal_integer (\<lambda>f z0 al t m. Inr z0)
             (\<lambda>f z0 t m. Inl (Exception ''Singular matrix''))
           \<lparr>valuations = ''10,20,15'', mu = 100, alpha = 1/100, tol = 1/1000000,
            max_iter = 1000, max_iter_newton = 100\<rparr>))
   \<and> \<not> (\<exists>r. Print [Formatted ''Newton's Method Revenue Error: {:.6f}'' r]
       \<in> set (snd (main decimal_integer (\<lambda>f z0 al t m. Inr z0)
             (\<lambda>f z0 t m. Inl (Exception ''Singular matrix''))
           \<lparr>valuations = ''10,20,15'', mu = 100, alpha = 1/100, tol = 1/1000000,
            max_iter = 1000, max_iter_newton = 100\<rparr>)))
   \<and> Print [Formatted ''Newton's Method Revenue Error: {:.6f}'' 20]
       \<in> set (snd (main decimal_integer (\<lambda>f z0 al t m. Inr z0) (\<lambda>f z0 t m. Inr z0)
           \<lparr>valuations = ''10,20,15'', mu = 100, alpha = 1/100, tol = 1/1000000,
            max_iter = 1000, max_iter_newton = 100\<rparr>))"
proof -
  let ?a = "\<lparr>valuations = ''10,20,15'', mu = 100, alpha = 1/100, tol = 1/1000000,
            max_iter = 1000, max_iter_newton = 100\<rparr>"
  let ?v = "[10, 20, 15 :: real]"
  let ?sd = "\<lambda>(f :: objective) (z0 :: real list) (al :: real) (t :: real) (m :: int).
               (Inr z0 :: error + real list)"
  let ?fail = "\<lambda>(f :: objective) (z0 :: real list) (t :: real) (m :: int).
               (Inl (Exception ''Singular matrix'') :: error + real list)"
  let ?ok = "\<lambda>(f :: objective) (z0 :: real list) (t :: real) (m :: int).
               (Inr z0 :: error + real list)"
  have p: "parse_valuations decimal_integer (valuations ?a) = Inr ?v"
    by (simp add: parse_example)
  have s: "?sd (\<lambda>z. potential z ?v (mu ?a)) (initial_guess (length ?v))
             (alpha ?a) (tol ?a) (max_iter ?a) = Inr (initial_guess (length ?v))"
    by simp
  have l: "length (initial_guess (length ?v)) = 2 * length ?v"
    by (simp add: initial_guess_eq)
  have n1: "\<forall>z. ?fail (\<lambda>z. potential z ?v (mu ?a)) (initial_guess (length ?v))
               (tol ?a) (max_iter_newton ?a) = Inr z \<longrightarrow> length z = 2 * length ?v"
    by simp
  have n2: "\<forall>z. ?ok (\<lambda>z. potential z ?v (mu ?a)) (initial_guess (length ?v))
               (tol ?a) (max_iter_newton ?a) = Inr z \<longrightarrow> length z = 2 * length ?v"
    using l by auto
  have r: "sum_list (drop (length ?v) (initial_guess (length ?v))) = 0"
    by (simp add: initial_guess_eq)
  have m: "Max (set ?v) = 20" by simp
  note t1 = main_newton_failure_contained [where pyfloat = decimal_integer
      and steepest_descent = ?sd and newton = ?fail, OF p s l n1, unfolded Let_def r m]
  note t2 = main_newton_failure_contained [where pyfloat = decimal_integer
      and steepest_descent = ?sd and newton = ?ok, OF p s l n2, unfolded Let_def r m]
  from t1 have a1: "fst (main decimal_integer ?sd ?fail ?a) = Inr ()"
    and a2: "Print [Formatted ''Steepest Descent Revenue Error: {:.6f}'' \<bar>20 - 0\<bar>]
               \<in> set (snd (main decimal_integer ?sd ?fail ?a))"
    and a3: "Print [Str ''Newton's Method did not produce a solution.'']
               \<in> set (snd (main decimal_integer ?sd ?fail ?a))"
    and a4: "\<not> (\<exists>r. Print [Formatted ''Newton's Method Revenue Error: {:.6f}'' r]
               \<in> set (snd (main decimal_integer ?sd ?fail ?a)))"
    by simp_all
  from t2 have b: "Print [Formatted ''Newton's Method Revenue Error: {:.6f}'' \<bar>20 - 0\<bar>]
               \<in> set (snd (main decimal_integer ?sd ?ok ?a))"
    using r by simp
  from a1 a2 a3 a4 b show ?thesis by (simp add: parse_example)
qed

text \<open>
  C8. The claim is that the initial guess, \<open>x_i = 1/n\<close> and \<open>p_i = 0\<close>, is exactly
  feasible, with allocations that sum to exactly 1 and potential 0; the comment on line
  86 calls it a feasible point. The program stores the rounded quotients, and with
  twenty bidders each stored allocation is above \<open>1/20\<close>: the allocations sum to more
  than 1, the total-allocation constraint is violated, and the potential at the guess
  is positive for valuations all equal to 1 and \<open>mu = 100\<close>. The sums of
  \<open>potential\<close> are exact here, while the program rounds them as well, so the
  program's own positive number differs from the one of this model.
\<close>

theorem initial_guess_rounding_infeasible:
  "initial_guess 20 = replicate 20 (7205759403792794 / 2^57) @ replicate 20 0
   \<and> (1 / 20 :: real) < 7205759403792794 / 2^57
   \<and> 1 < sum_list (take 20 (initial_guess 20))
   \<and> (\<exists>y. potential (initial_guess 20) (replicate 20 1) 100 = Inr y \<and> 0 < y)"
proof -
  let ?c = "7205759403792794 / 2^57 :: real"
  have g: "initial_guess 20 = replicate 20 ?c @ replicate 20 0"
    by (simp only: initial_guess_eq of_nat_numeral round_f64_twentieth)
  have c: "(1 / 20 :: real) < ?c" by simp
  have s: "1 < sum_list (take 20 (initial_guess 20))"
    by (simp add: g sum_list_replicate)
  have l: "length (initial_guess 20) = 2 * length (replicate 20 (1::real))"
    by (simp add: g)
  have p: "0 < penalty (initial_guess 20) (replicate 20 1)"
    by (simp add: g penalty_def Let_def hinge_sq_sum_replicate sum_list_replicate
        zip_replicate max_def)
  have d: "sum_list (drop 20 (initial_guess 20)) = 0"
    by (simp add: g sum_list_zeros)
  have "potential (initial_guess 20) (replicate 20 1) 100
          = Inr (100 / 2 * penalty (initial_guess 20) (replicate 20 1))"
    using potential_solution_vector [OF l, of 100] d by simp
  moreover have "0 < 100 / 2 * penalty (initial_guess 20) (replicate 20 1)"
    using p by simp
  ultimately show ?thesis using g c s by blast
qed

text \<open>
  C9, as amended. \<open>main\<close> does not look at the value of \<open>mu\<close>: whenever the valuations
  parse, the run calls the steepest-descent solver on the initial guess, for every
  \<open>mu\<close>, a negative one or zero included. Zero bidders do not occur: a parsed valuation
  vector is never empty, and the empty valuations string, whose single token is the
  empty string that \<open>float\<close> rejects, ends with the parse error before anything else
  happens.
\<close>

theorem main_no_configuration_check:
  "(parse_valuations pyfloat (valuations a) = Inr v \<longrightarrow>
      v \<noteq> []
      \<and> (\<forall>m. Call_steepest_descent (initial_guess (length v))
                \<in> set (snd (main pyfloat steepest_descent newton (a\<lparr>mu := m\<rparr>)))))
   \<and> (pyfloat [] = None \<longrightarrow>
        main pyfloat steepest_descent newton (a\<lparr>valuations := []\<rparr>) =
          (Inl (ValueError ''Error parsing valuations. Ensure they are comma-separated numbers.''),
           []))"
proof (intro conjI impI allI)
  assume "parse_valuations pyfloat (valuations a) = Inr v"
  then show "v \<noteq> []" by (rule parse_valuations_nonempty)
next
  fix m
  assume "parse_valuations pyfloat (valuations a) = Inr v"
  then have "parse_valuations pyfloat (valuations (a\<lparr>mu := m\<rparr>)) = Inr v" by simp
  then show "Call_steepest_descent (initial_guess (length v))
               \<in> set (snd (main pyfloat steepest_descent newton (a\<lparr>mu := m\<rparr>)))"
    by (rule main_reaches_steepest_descent)
next
  assume "pyfloat [] = None"
  then have "float_each pyfloat (split_comma []) = None" by (simp add: strip_empty)
  then show "main pyfloat steepest_descent newton (a\<lparr>valuations := []\<rparr>) =
          (Inl (ValueError ''Error parsing valuations. Ensure they are comma-separated numbers.''),
           [])"
    by (simp add: main_def parse_valuations_def)
qed

theorem main_no_configuration_check_witness:
  "parse_valuations decimal_integer ''5'' = Inr [5]
   \<and> Call_steepest_descent [1, 0]
       \<in> set (snd (main decimal_integer (\<lambda>f z0 al t m. Inr z0) (\<lambda>f z0 t m. Inr z0)
           \<lparr>valuations = ''5'', mu = - 3, alpha = 1/100, tol = 1/1000000,
            max_iter = 1000, max_iter_newton = 100\<rparr>))
   \<and> decimal_integer [] = None
   \<and> main decimal_integer (\<lambda>f z0 al t m. Inr z0) (\<lambda>f z0 t m. Inr z0)
           \<lparr>valuations = [], mu = 100, alpha = 1/100, tol = 1/1000000,
            max_iter = 1000, max_iter_newton = 100\<rparr>
       = (Inl (ValueError ''Error parsing valuations. Ensure they are comma-separated numbers.''),
          [])"
proof -
  let ?a = "\<lparr>valuations = ''5'', mu = 100, alpha = 1/100, tol = 1/1000000,
            max_iter = 1000, max_iter_newton = 100\<rparr>"
  let ?sd = "\<lambda>(f :: objective) (z0 :: real list) (al :: real) (t :: real) (m :: int).
               (Inr z0 :: error + real list)"
  let ?nw = "\<lambda>(f :: objective) (z0 :: real list) (t :: real) (m :: int).
               (Inr z0 :: error + real list)"
  have p: "parse_valuations decimal_integer (valuations ?a) = Inr [5]"
    by (simp add: parse_single)
  have e: "decimal_integer [] = None" by (simp add: decimal_integer_def)
  have g: "initial_guess (length [5 :: real]) = [1, 0]"
    by (simp add: initial_guess_def Let_def round_f64_one)
  note t = main_no_configuration_check [where pyfloat = decimal_integer and a = ?a
      and v = "[5]" and steepest_descent = ?sd and newton = ?nw]
  from t p have "\<forall>m. Call_steepest_descent (initial_guess (length [5 :: real]))
                \<in> set (snd (main decimal_integer ?sd ?nw (?a\<lparr>mu := m\<rparr>)))"
    by blast
  then have c1: "Call_steepest_descent (initial_guess (length [5 :: real]))
                \<in> set (snd (main decimal_integer ?sd ?nw (?a\<lparr>mu := - 3\<rparr>)))"
    by blast
  from t e have c2: "main decimal_integer ?sd ?nw (?a\<lparr>valuations := []\<rparr>) =
          (Inl (ValueError ''Error parsing valuations. Ensure they are comma-separated numbers.''),
           [])"
    by blast
  from c1 c2 e show ?thesis unfolding g by (simp add: parse_single)
qed

text \<open>
  With \<open>mu = -3\<close> and the single valuation 5 the run is not rejected: both solvers are
  called and the whole report is printed. The two solvers here return their starting
  point.
\<close>

theorem main_nonpositive_mu_counterexample:
  "fst (main decimal_integer (\<lambda>f z0 al t m. Inr z0) (\<lambda>f z0 t m. Inr z0)
           \<lparr>valuations = ''5'', mu = - 3, alpha = 1/100, tol = 1/1000000,
            max_iter = 1000, max_iter_newton = 100\<rparr>) = Inr ()
   \<and> snd (main decimal_integer (\<lambda>f z0 al t m. Inr z0) (\<lambda>f z0 t m. Inr z0)
           \<lparr>valuations = ''5'', mu = - 3, alpha = 1/100, tol = 1/1000000,
            max_iter = 1000, max_iter_newton = 100\<rparr>)
      = [Print [Str ''=== Optimal Auction Design Optimization ===''],
         Print [Str ''Bidder valuations:'', Arr [5]],
         Print [Str ''Initial guess (allocations, payments):'', Arr [1, 0]],
         Print [Str (CHR 0x0A # ''--- Running Steepest Descent ---'')],
         Call_steepest_descent [1, 0],
         Print [Str ''Steepest Descent Solution (x and p):'', Arr [1, 0]],
         Print [Str ''Potential function value (Steepest Descent):'', Num 0],
         Print [Str ''Achieved Revenue (Steepest Descent):'', Num 0],
         Print [Str (CHR 0x0A # ''--- Running Newton's Method ---'')],
         Call_newton [1, 0],
         Print [Str ''Newton's Method Solution (x and p):'', Arr [1, 0]],
         Print [Str ''Potential function value (Newton):'', Num 0],
         Print [Str ''Achieved Revenue (Newton):'', Num 0],
         Print [Str (CHR 0x0A # ''--- Analytical Optimal Solution ---'')],
         Print [Str ''Analytical Optimal (x and p):'', Arr [1, 5]],
         Print [Str ''Optimal Revenue:'', Num 5],
         Print [Str (CHR 0x0A # ''--- Comparison ---'')],
         Print [Formatted ''Steepest Descent Revenue Error: {:.6f}'' 5],
         Print [Formatted ''Newton's Method Revenue Error: {:.6f}'' 5]]"
proof -
  have pot: "potential [1, 0] [5] (- 3) = Inr 0"
    by (simp add: potential_def Let_def broadcast2_def hinge_sq_sum_def)
  have an: "analytical_optimal_solution [5] = Inr [1, 5]"
    by (simp add: analytical_optimal_solution_def argmax_def)
  have g: "initial_guess (Suc 0) = [1, 0]"
    by (simp add: initial_guess_def Let_def round_f64_one)
  show ?thesis
    by (simp add: main_def parse_single Let_def g pot newton_branch_def report_def an)
qed

text \<open>
  C10. For a non-empty valuation vector without negative entries, the vector that
  \<open>analytical_optimal_solution\<close> returns satisfies every constraint, and the potential at
  it is the negated maximum valuation for every \<open>mu\<close>.
\<close>

theorem potential_at_analytical_optimum:
  assumes "v \<noteq> []" and "\<forall>t\<in>set v. 0 \<le> t"
  shows "\<exists>z. analytical_optimal_solution v = Inr z \<and> feasible v z
             \<and> potential z v \<mu> = Inr (- Max (set v))"
proof -
  let ?n = "length v"
  from assms(1) obtain k where k: "first_max v k" using argmax_first_max by blast
  then have kn: "k < ?n" by (simp add: first_max_def)
  let ?z = "(replicate ?n 0)[k := 1] @ (replicate ?n 0)[k := v ! k]"
  have z: "analytical_optimal_solution v = Inr ?z" by (rule analytical_first_max [OF k])
  have l: "length ?z = 2 * ?n" by simp
  have vk: "0 \<le> v ! k" using assms(2) kn by simp
  have f: "feasible v ?z"
    using kn vk by (simp add: feasible_def Let_def unit_vector_nth sum_list_unit_vector)
  have p: "potential ?z v \<mu> = Inr (- sum_list (drop ?n ?z))"
    by (rule potential_feasible [OF l f])
  have "sum_list (drop ?n ?z) = v ! k" using kn by (simp add: sum_list_unit_vector)
  then have "sum_list (drop ?n ?z) = Max (set v)" by (simp add: first_max_Max [OF k])
  with p have "potential ?z v \<mu> = Inr (- Max (set v))" by simp
  with z f show ?thesis by blast
qed

theorem potential_at_analytical_optimum_witness:
  "[10, 20, 15 :: real] \<noteq> [] \<and> (0::real) \<le> 10 \<and> (0::real) \<le> 20 \<and> (0::real) \<le> 15
   \<and> analytical_optimal_solution [10, 20, 15] = Inr [0, 1, 0, 0, 20, 0]
   \<and> potential [0, 1, 0, 0, 20, 0] [10, 20, 15] 7 = Inr (- 20)"
proof -
  have a: "analytical_optimal_solution [10, 20, 15] = Inr [0, 1, 0, 0, 20, 0]"
    by (simp add: analytical_optimal_solution_def argmax_def Let_def eval_nat_numeral)
  have "\<exists>z. analytical_optimal_solution [10, 20, 15] = Inr z \<and> feasible [10, 20, 15] z
             \<and> potential z [10, 20, 15] 7 = Inr (- Max (set [10, 20, 15]))"
    by (rule potential_at_analytical_optimum) simp_all
  with a show ?thesis by simp
qed

end
